theory Spec2Isabelle
  imports Complex_Main
begin

section \<open>Data model (types.ts)\<close>

text \<open>
  \<^verbatim>\<open>GraphNode\<close> carries an identifier, a label, a group and a description. The optional
  layout fields \<^verbatim>\<open>x, y, fx, fy\<close> belong to the D3 simulation; no function of
  \<^verbatim>\<open>App.tsx\<close> reads or writes them, so the record leaves them out. The field
  \<^verbatim>\<open>id\<close> is named \<open>node_id\<close> and \<^verbatim>\<open>group\<close> is named \<open>node_group\<close>, since
  both names are taken in HOL.
\<close>

record GraphNode =
  node_id :: string
  label :: string
  node_group :: string
  description :: string

text \<open>
  A link endpoint is \<^verbatim>\<open>string | GraphNode\<close>: an identifier as generated or imported,
  or the node object that D3 puts in its place once a simulation has resolved the link.
\<close>

datatype endpoint = Ident string | Obj GraphNode

record GraphLink =
  source :: endpoint
  target :: endpoint
  relation :: "string option"

record KnowledgeGraphData =
  nodes :: "GraphNode list"
  links :: "GraphLink list"

section \<open>Graph Data Store (App.tsx)\<close>

text \<open>
  \<^verbatim>\<open>typeof e === 'object' ? (e as GraphNode).id : e\<close>, the idiom every link filter of
  \<^verbatim>\<open>App.tsx\<close> uses to read an endpoint.
\<close>

fun endpointId :: "endpoint \<Rightarrow> string" where
  "endpointId (Ident s) = s"
| "endpointId (Obj n) = node_id n"

definition sourceId :: "GraphLink \<Rightarrow> string" where
  "sourceId l = endpointId (source l)"

definition targetId :: "GraphLink \<Rightarrow> string" where
  "targetId l = endpointId (target l)"

text \<open>\<^verbatim>\<open>new Set(nodes.map(n => n.id))\<close>\<close>

definition idSet :: "GraphNode list \<Rightarrow> string set" where
  "idSet ns = set (map node_id ns)"

text \<open>
  \<^verbatim>\<open>sanitizeGraphData\<close>: the node list is returned as it came; a link is kept when both
  its endpoint identifiers are in the node identifier set.
\<close>

definition sanitizeGraphData :: "GraphNode list \<Rightarrow> GraphLink list \<Rightarrow> KnowledgeGraphData" where
  "sanitizeGraphData ns ls =
     (let nodeIds = idSet ns;
          validLinks = filter (\<lambda>l. sourceId l \<in> nodeIds \<and> targetId l \<in> nodeIds) ls
      in \<lparr>nodes = ns, links = validLinks\<rparr>)"

text \<open>The deduplication key of a link, the template string \<^verbatim>\<open>`${s}-${t}`\<close>.\<close>

definition linkKey :: "GraphLink \<Rightarrow> string" where
  "linkKey l = sourceId l @ ''-'' @ targetId l"

text \<open>
  The body of the state updater in \<^verbatim>\<open>handleExpandSelection\<close> for a graph that is
  present. \<^verbatim>\<open>expandGraph\<close> always returns an object with two arrays, so the guards
  \<^verbatim>\<open>newData?.nodes || []\<close> and \<^verbatim>\<open>newData?.links || []\<close> read the arrays themselves.
\<close>

definition merge :: "KnowledgeGraphData \<Rightarrow> KnowledgeGraphData \<Rightarrow> KnowledgeGraphData" where
  "merge prevData newData =
     (let newNodesRaw = nodes newData;
          newLinksRaw = links newData;
          existingIds = idSet (nodes prevData);
          uniqueNewNodes = filter (\<lambda>n. node_id n \<notin> existingIds) newNodesRaw;
          mergedNodes = nodes prevData @ uniqueNewNodes;
          allNodeIds = idSet mergedNodes;
          existingLinks = set (map linkKey (links prevData));
          uniqueNewLinks = filter (\<lambda>l. linkKey l \<notin> existingLinks) newLinksRaw;
          mergedLinks = links prevData @ uniqueNewLinks;
          validLinks = filter (\<lambda>l. sourceId l \<in> allNodeIds \<and> targetId l \<in> allNodeIds) mergedLinks
      in \<lparr>nodes = mergedNodes, links = validLinks\<rparr>)"

text \<open>
  The whole updater: with no graph present (\<^verbatim>\<open>if (!prevData) return newData\<close>) the
  fragment becomes the graph as it is.
\<close>

definition mergeUpdater :: "KnowledgeGraphData \<Rightarrow> KnowledgeGraphData option \<Rightarrow> KnowledgeGraphData option" where
  "mergeUpdater newData prevData =
     (case prevData of None \<Rightarrow> Some newData | Some p \<Rightarrow> Some (merge p newData))"

subsection \<open>The graph invariants of the specification\<close>

definition linkPair :: "GraphLink \<Rightarrow> string \<times> string" where
  "linkPair l = (sourceId l, targetId l)"

definition uniqueIds :: "KnowledgeGraphData \<Rightarrow> bool" where
  "uniqueIds g = distinct (map node_id (nodes g))"

definition noDangling :: "KnowledgeGraphData \<Rightarrow> bool" where
  "noDangling g =
     list_all (\<lambda>l. sourceId l \<in> idSet (nodes g) \<and> targetId l \<in> idSet (nodes g)) (links g)"

definition uniqueLinks :: "KnowledgeGraphData \<Rightarrow> bool" where
  "uniqueLinks g = distinct (map linkPair (links g))"

subsection \<open>Sample values\<close>

definition mkNode :: "string \<Rightarrow> string \<Rightarrow> GraphNode" where
  "mkNode i lbl = \<lparr>node_id = i, label = lbl, node_group = ''g'', description = ''''\<rparr>"

definition mkLink :: "string \<Rightarrow> string \<Rightarrow> GraphLink" where
  "mkLink s t = \<lparr>source = Ident s, target = Ident t, relation = None\<rparr>"

text \<open>The merge scenario of the specification, with a link between two unknown nodes added.\<close>

definition sampleG :: KnowledgeGraphData where
  "sampleG = \<lparr>nodes = [mkNode ''A'' ''a'', mkNode ''B'' ''b''], links = [mkLink ''A'' ''B'']\<rparr>"

definition sampleF :: KnowledgeGraphData where
  "sampleF = \<lparr>nodes = [mkNode ''B'' ''other'', mkNode ''C'' ''c''],
               links = [mkLink ''A'' ''B'', mkLink ''B'' ''C'', mkLink ''X'' ''Y'']\<rparr>"

text \<open>Two graphs whose links differ as pairs and agree as keys.\<close>

definition collideG :: KnowledgeGraphData where
  "collideG = \<lparr>nodes = [mkNode ''a-b'' ''p'', mkNode ''c'' ''q'', mkNode ''a'' ''r'', mkNode ''b-c'' ''s''],
                links = [mkLink ''a-b'' ''c'']\<rparr>"

definition collideF :: KnowledgeGraphData where
  "collideF = \<lparr>nodes = [], links = [mkLink ''a'' ''b-c'']\<rparr>"

text \<open>A fragment whose link has a key of its own.\<close>

definition contrastF :: KnowledgeGraphData where
  "contrastF = \<lparr>nodes = [], links = [mkLink ''a'' ''c'']\<rparr>"

text \<open>
  Node and link lists that are no graph of the specification: the only link is dangling,
  and its key is the key of the fragment's link.
\<close>

definition rawG :: KnowledgeGraphData where
  "rawG = \<lparr>nodes = [], links = [mkLink ''a'' ''b-c'']\<rparr>"

definition rawF :: KnowledgeGraphData where
  "rawF = \<lparr>nodes = [mkNode ''a-b'' ''p'', mkNode ''c'' ''q''], links = [mkLink ''a-b'' ''c'']\<rparr>"

section \<open>Application state and handlers (App.tsx)\<close>

record PlanResponse =
  markdown :: string
  sources :: "(string \<times> string) list"

text \<open>
  The React state of \<^verbatim>\<open>App\<close>. The flags \<^verbatim>\<open>apiKeyReady\<close> and
  \<^verbatim>\<open>showNotebookModal\<close> are left out: the handlers below neither read them nor
  decide anything by them.
\<close>

record AppState =
  topic :: string
  status :: string
  graphData :: "KnowledgeGraphData option"
  loadingGraph :: bool
  graphError :: string
  isExpanding :: bool
  isSelectionMode :: bool
  selectedNodeIds :: "string set"
  selectedNode :: "GraphNode option"
  plan :: "PlanResponse option"
  imageUrl :: "string option"
  loadingDetails :: bool
  showPanel :: bool

text \<open>
  A value caught by a \<^verbatim>\<open>catch\<close> clause: \<^verbatim>\<open>null\<close> or \<^verbatim>\<open>undefined\<close>, or a value
  reduced to its \<^verbatim>\<open>message\<close> property (absent on a value that has none). An awaited
  collaborator either throws or returns.
\<close>

datatype thrown = Nullish | Thrown "string option"

type_synonym 'a outcome = "thrown + 'a"

text \<open>
  \<^verbatim>\<open>err.message || fallback\<close>: an absent or empty message is falsy. On \<^verbatim>\<open>null\<close> and
  \<^verbatim>\<open>undefined\<close> reading the property throws, and the expression has no value.
\<close>

fun messageOr :: "thrown \<Rightarrow> string \<Rightarrow> string option" where
  "messageOr Nullish fallback = None"
| "messageOr (Thrown None) fallback = Some fallback"
| "messageOr (Thrown (Some m)) fallback = Some (if m = [] then fallback else m)"

subsection \<open>handleGenerate\<close>

text \<open>
  The state updates of \<^verbatim>\<open>handleGenerate\<close> before its first \<^verbatim>\<open>await\<close>. The graph
  is set to \<^verbatim>\<open>null\<close> here, before the collaborator is called.
\<close>

definition generateBegin :: "AppState \<Rightarrow> AppState" where
  "generateBegin s =
     s\<lparr>loadingGraph := True, graphError := '''', graphData := None, selectedNode := None,
       plan := None, imageUrl := None, showPanel := False, selectedNodeIds := {}\<rparr>"

text \<open>
  The \<^verbatim>\<open>try\<close> block awaits \<^verbatim>\<open>hasApiKey\<close>, possibly \<^verbatim>\<open>handleApiKeySelect\<close>, and
  \<^verbatim>\<open>generateKnowledgeGraph\<close>; its outcome is the first value thrown or the generated
  data. Then \<^verbatim>\<open>catch\<close> and \<^verbatim>\<open>finally\<close>. When the \<^verbatim>\<open>catch\<close> clause itself throws
  while it reads the message, no error text is set, and \<^verbatim>\<open>finally\<close> still runs.
\<close>

definition generateResolve :: "KnowledgeGraphData outcome \<Rightarrow> AppState \<Rightarrow> AppState" where
  "generateResolve res s =
     (case res of
        Inr data \<Rightarrow> s\<lparr>graphData := Some (sanitizeGraphData (nodes data) (links data))\<rparr>
      | Inl err \<Rightarrow>
          (case messageOr err ''Failed to generate graph'' of
             None \<Rightarrow> s
           | Some msg \<Rightarrow> s\<lparr>graphError := msg\<rparr>))
     \<lparr>loadingGraph := False\<rparr>"

definition handleGenerate :: "KnowledgeGraphData outcome \<Rightarrow> AppState \<Rightarrow> AppState" where
  "handleGenerate res s = (if topic s = [] then s else generateResolve res (generateBegin s))"

subsection \<open>handleFileChange\<close>

text \<open>
  What \<^verbatim>\<open>reader.onload\<close> finds in the file: text that \<^verbatim>\<open>JSON.parse\<close> rejects, a
  value of neither accepted shape, an export with metadata
  (\<^verbatim>\<open>{graphData: {nodes, links}, topic, status}\<close>) or a bare \<^verbatim>\<open>{nodes, links}\<close>.
  The first two end in the \<^verbatim>\<open>catch\<close> clause, which logs the error and sets the
  error text.
\<close>

datatype parsedFile =
    Unparsable
  | WrongShape
  | Wrapped "GraphNode list" "GraphLink list" "string option" "string option"
  | Bare "GraphNode list" "GraphLink list"

text \<open>\<^verbatim>\<open>if (parsed.topic) setTopic(parsed.topic)\<close>: set when present and not empty.\<close>

fun truthyOr :: "string option \<Rightarrow> string \<Rightarrow> string" where
  "truthyOr None old = old"
| "truthyOr (Some v) old = (if v = [] then old else v)"

fun fileLoaded :: "parsedFile \<Rightarrow> AppState \<Rightarrow> AppState" where
  "fileLoaded (Wrapped ns ls t st) s =
     s\<lparr>graphData := Some (sanitizeGraphData ns ls), topic := truthyOr t (topic s),
       status := truthyOr st (status s), selectedNode := None, plan := None, imageUrl := None,
       showPanel := False, selectedNodeIds := {}, graphError := ''''\<rparr>"
| "fileLoaded (Bare ns ls) s =
     s\<lparr>graphData := Some (sanitizeGraphData ns ls), graphError := ''''\<rparr>"
| "fileLoaded _ s = s\<lparr>graphError := ''Failed to import graph: Invalid JSON format.''\<rparr>"

subsection \<open>handleExpandSelection\<close>

text \<open>
  The request sent to \<^verbatim>\<open>expandGraph\<close>: the selected nodes of the current graph as
  \<^verbatim>\<open>{id, label}\<close> pairs, and the topic.
\<close>

record ExpandRequest =
  selectedNodes :: "(string \<times> string) list"
  contextTopic :: string

text \<open>
  The guard \<^verbatim>\<open>if (!graphData || !graphData.nodes || selectedNodeIds.size === 0) return\<close>
  and the projection of the selection; \<open>None\<close> is the early return. The node list of a
  graph is always an array, so the middle test never fires.
\<close>

definition expandRequest :: "AppState \<Rightarrow> ExpandRequest option" where
  "expandRequest s =
     (case graphData s of
        None \<Rightarrow> None
      | Some g \<Rightarrow>
          if selectedNodeIds s = {} then None
          else Some \<lparr>selectedNodes =
                        map (\<lambda>n. (node_id n, label n))
                          (filter (\<lambda>n. node_id n \<in> selectedNodeIds s) (nodes g)),
                      contextTopic = topic s\<rparr>)"

definition expandBegin :: "AppState \<Rightarrow> AppState" where
  "expandBegin s = s\<lparr>isExpanding := True, graphError := ''''\<rparr>"

text \<open>
  After the \<^verbatim>\<open>await\<close>: on success the functional updater merges the fragment into the
  graph that is current at that moment; on failure the \<^verbatim>\<open>catch\<close> clause writes the
  caught value to the console and sets no state. The second component is what
  \<^verbatim>\<open>console.error\<close> received.
\<close>

definition expandResolve :: "KnowledgeGraphData outcome \<Rightarrow> AppState \<Rightarrow> AppState \<times> thrown list" where
  "expandResolve res s =
     (case res of
        Inr newData \<Rightarrow> (s\<lparr>graphData := mergeUpdater newData (graphData s), isExpanding := False\<rparr>, [])
      | Inl err \<Rightarrow> (s\<lparr>isExpanding := False\<rparr>, [err]))"

text \<open>
  One uninterrupted run of \<^verbatim>\<open>handleExpandSelection\<close> against a collaborator: the final
  state, the requests made, and the console output.
\<close>

definition handleExpandSelection ::
  "(ExpandRequest \<Rightarrow> KnowledgeGraphData outcome) \<Rightarrow> AppState
     \<Rightarrow> AppState \<times> ExpandRequest list \<times> thrown list" where
  "handleExpandSelection expandGraph s =
     (case expandRequest s of
        None \<Rightarrow> (s, [], [])
      | Some req \<Rightarrow>
          (let (s', logged) = expandResolve (expandGraph req) (expandBegin s)
           in (s', [req], logged)))"

subsection \<open>Interleaving of handlers\<close>

text \<open>
  Handlers run to their next \<^verbatim>\<open>await\<close> without interruption; another handler may run
  between the two halves of an asynchronous one. No handler records which graph a
  pending call was started for, and the busy flag only disables a button.
\<close>

datatype event =
    GenerateBegin
  | GenerateResolve "KnowledgeGraphData outcome"
  | FileLoaded parsedFile
  | ExpandBegin
  | ExpandResolve "KnowledgeGraphData outcome"

fun step :: "AppState \<Rightarrow> event \<Rightarrow> AppState" where
  "step s GenerateBegin = (if topic s = [] then s else generateBegin s)"
| "step s (GenerateResolve res) = generateResolve res s"
| "step s (FileLoaded p) = fileLoaded p s"
| "step s ExpandBegin = (case expandRequest s of None \<Rightarrow> s | Some req \<Rightarrow> expandBegin s)"
| "step s (ExpandResolve res) = fst (expandResolve res s)"

definition run :: "event list \<Rightarrow> AppState \<Rightarrow> AppState" where
  "run es s = foldl step s es"

text \<open>A state with the sample graph loaded and node \<open>A\<close> selected.\<close>

definition sampleState :: AppState where
  "sampleState =
     \<lparr>topic = ''T'', status = ''Beginner'', graphData = Some sampleG, loadingGraph = False,
      graphError = '''', isExpanding = False, isSelectionMode = True,
      selectedNodeIds = {''A''}, selectedNode = None, plan = None, imageUrl = None,
      loadingDetails = False, showPanel = False\<rparr>"

definition staleF :: KnowledgeGraphData where
  "staleF = \<lparr>nodes = [mkNode ''C'' ''c''], links = [mkLink ''A'' ''C'']\<rparr>"

definition emptyF :: KnowledgeGraphData where
  "emptyF = \<lparr>nodes = [], links = []\<rparr>"


definition generationError :: thrown where
  "generationError = Thrown (Some ''Failed to generate knowledge graph. Please try again.'')"


section \<open>Force layout and rendering (GraphVisualizer)\<close>

text \<open>
  React compares the dependencies of an effect with \<^verbatim>\<open>Object.is\<close>: objects, arrays and
  sets are the same when they are the same reference. A value held by reference is a pair
  of its address and its content.
\<close>

type_synonym 'a obj = "nat \<times> 'a"

definition sameRef :: "'a obj \<Rightarrow> 'a obj \<Rightarrow> bool" where
  "sameRef a b = (fst a = fst b)"

fun sameRefOrNull :: "'a obj option \<Rightarrow> 'a obj option \<Rightarrow> bool" where
  "sameRefOrNull None None = True"
| "sameRefOrNull (Some a) (Some b) = sameRef a b"
| "sameRefOrNull _ _ = False"

text \<open>
  What the effects of \<^verbatim>\<open>GraphVisualizer\<close> depend on at one render: the props
  \<^verbatim>\<open>data\<close> and \<^verbatim>\<open>selectedNodeIds\<close> (here \<open>selectedIds\<close>) and the state
  \<^verbatim>\<open>dimensions\<close> (width and height).
\<close>

record VisInputs =
  data :: "KnowledgeGraphData obj option"
  dimensions :: "(nat \<times> nat) obj"
  selectedIds :: "string set obj"

text \<open>
  A colour by its red, green and blue components. The source writes colours as hex
  literals; D3 leaves an attribute it has animated as \<^verbatim>\<open>rgb(r, g, b)\<close>. Both spell the
  same colour: \<^verbatim>\<open>#374151\<close> is \<open>(55, 65, 81)\<close> and \<^verbatim>\<open>#34d399\<close> is
  \<open>(52, 211, 153)\<close>.
\<close>

type_synonym colour = "nat \<times> nat \<times> nat"

text \<open>
  A \<^verbatim>\<open>.node-circle\<close> element with the node bound to it and the attributes that the
  two effects set: \<^verbatim>\<open>r\<close> (here \<open>radius\<close>), \<^verbatim>\<open>stroke\<close>, \<^verbatim>\<open>stroke-width\<close> and
  \<^verbatim>\<open>stroke-opacity\<close>. The fill colour, the element id and the label text are written
  once when the circle is created and by nothing else.
\<close>

record Circle =
  datum :: GraphNode
  radius :: rat
  stroke :: colour
  strokeWidth :: rat
  strokeOpacity :: "rat option"

text \<open>
  The object \<^verbatim>\<open>d3.forceSimulation\<close> returns: the copied nodes and links, the centre of
  the centring force, whether \<^verbatim>\<open>stop()\<close> has been called on it, and the state D3 keeps
  and advances on every tick (positions, velocities, alpha, pins), of a type \<open>'p\<close> that
  is left open.
\<close>

record 'p Simulation =
  simNodes :: "GraphNode list"
  simLinks :: "GraphLink list"
  center :: "rat \<times> rat"
  physics :: 'p
  stopped :: bool

record 'p Rendered =
  circles :: "Circle list"
  simulation :: "'p Simulation option"

text \<open>
  The effect with dependencies \<^verbatim>\<open>[data, dimensions]\<close>. It returns early, before
  clearing the drawing, when there is no data or no node (the \<^verbatim>\<open>svg\<close> element is
  mounted whenever an effect runs). Otherwise it clears the drawing, builds a simulation
  from copies of the nodes and links, and draws one circle per node. The first argument
  stands for the state a new D3 simulation starts in.
\<close>

definition newCircle :: "GraphNode \<Rightarrow> Circle" where
  "newCircle d = \<lparr>datum = d, radius = 20, stroke = (55, 65, 81), strokeWidth = 3 / 2,
                  strokeOpacity = None\<rparr>"

definition renderEffect ::
  "(GraphNode list \<Rightarrow> GraphLink list \<Rightarrow> rat \<times> rat \<Rightarrow> 'p) \<Rightarrow> VisInputs \<Rightarrow> 'p Rendered \<Rightarrow> 'p Rendered" where
  "renderEffect forceSimulation inp view =
     (case data inp of
        None \<Rightarrow> view
      | Some (a, d) \<Rightarrow>
          if nodes d = [] then view
          else
            (let (width, height) = snd (dimensions inp);
                 c = (of_nat width / 2, of_nat height / 2)
             in \<lparr>circles = map newCircle (nodes d),
                 simulation = Some \<lparr>simNodes = nodes d, simLinks = links d, center = c,
                                    physics = forceSimulation (nodes d) (links d) c,
                                    stopped = False\<rparr>\<rparr>))"

text \<open>
  The cleanup of that effect, \<^verbatim>\<open>simulation.stop()\<close>. React calls it before the effect
  runs again; a run that returned early registered none, and then the simulation of the
  run before it has been stopped already, so stopping whatever simulation exists is the
  same.
\<close>

definition renderCleanup :: "'p Rendered \<Rightarrow> 'p Rendered" where
  "renderCleanup view =
     view\<lparr>simulation := map_option (\<lambda>sim. sim\<lparr>stopped := True\<rparr>) (simulation view)\<rparr>"

text \<open>
  The effect with dependencies \<^verbatim>\<open>[selectedNodeIds, data]\<close>: every circle gets the
  four attributes by whether its node's identifier is selected. The values are those the
  attributes have when the 200 ms transition has ended; a transition that a later one
  interrupts ends at the later one's values.
\<close>

definition highlight :: "string set \<Rightarrow> Circle \<Rightarrow> Circle" where
  "highlight sel c =
     c\<lparr>stroke := (if node_id (datum c) \<in> sel then (52, 211, 153) else (55, 65, 81)),
       strokeWidth := (if node_id (datum c) \<in> sel then 4 else 3 / 2),
       strokeOpacity := Some (if node_id (datum c) \<in> sel then 1 else 4 / 5),
       radius := (if node_id (datum c) \<in> sel then 24 else 20)\<rparr>"

definition highlightEffect :: "VisInputs \<Rightarrow> 'p Rendered \<Rightarrow> 'p Rendered" where
  "highlightEffect inp view = view\<lparr>circles := map (highlight (snd (selectedIds inp))) (circles view)\<rparr>"

text \<open>
  A render after the first runs an effect when one of its dependencies is not the same
  as at the render before, the cleanup of the effect first.
\<close>

definition rerender ::
  "(GraphNode list \<Rightarrow> GraphLink list \<Rightarrow> rat \<times> rat \<Rightarrow> 'p) \<Rightarrow> VisInputs \<Rightarrow> VisInputs
     \<Rightarrow> 'p Rendered \<Rightarrow> 'p Rendered" where
  "rerender forceSimulation old new view =
     (let view1 = (if sameRefOrNull (data old) (data new) \<and> sameRef (dimensions old) (dimensions new)
                  then view
                  else renderEffect forceSimulation new (renderCleanup view));
          view2 = (if sameRef (selectedIds old) (selectedIds new) \<and> sameRefOrNull (data old) (data new)
                  then view1
                  else highlightEffect new view1)
      in view2)"

text \<open>
  The state \<^verbatim>\<open>dimensions\<close> starts as the object \<^verbatim>\<open>{width: 800, height: 600}\<close>, here
  at address 0.
\<close>

definition initialDimensions :: "(nat \<times> nat) obj" where
  "initialDimensions = (0, (800, 600))"

text \<open>
  Mounting the component with the given props, where the dimensions of the argument are
  the object that the resize effect measures. The first render has the initial
  dimensions and runs both effects in their order in the component. The resize effect of
  that render calls \<^verbatim>\<open>setDimensions\<close> with the measured object, a new reference, so a
  second render follows in which the dimensions alone have changed.
\<close>

definition mount ::
  "(GraphNode list \<Rightarrow> GraphLink list \<Rightarrow> rat \<times> rat \<Rightarrow> 'p) \<Rightarrow> VisInputs \<Rightarrow> 'p Rendered" where
  "mount forceSimulation inp =
     (let first = inp\<lparr>dimensions := initialDimensions\<rparr>;
          view = highlightEffect first
                   (renderEffect forceSimulation first \<lparr>circles = [], simulation = None\<rparr>)
      in rerender forceSimulation first inp view)"

text \<open>
  The sample graph with nothing selected, in a container measured at 1024 by 768.
\<close>

definition sampleInputs :: VisInputs where
  "sampleInputs = \<lparr>data = Some (1, sampleG), dimensions = (2, (1024, 768)), selectedIds = (3, {})\<rparr>"

text \<open>The drawing after mounting and some ticks, which took the physics from 0 to 7.\<close>

definition sampleRendered :: "nat Rendered" where
  "sampleRendered =
     (let view = mount (\<lambda>ns ls c. 0) sampleInputs
      in view\<lparr>simulation := map_option (\<lambda>sim. sim\<lparr>physics := 7\<rparr>) (simulation view)\<rparr>)"

text \<open>The props after a click in selection mode on node \<open>A\<close>: a new set, the same data.\<close>

definition selectedInputs :: VisInputs where
  "selectedInputs = sampleInputs\<lparr>selectedIds := (4, {''A''})\<rparr>"

section \<open>Properties of sanitize and merge\<close>

lemma nodes_merge:
  "nodes (merge G F) = nodes G @ filter (\<lambda>n. node_id n \<notin> idSet (nodes G)) (nodes F)"
  by (simp add: merge_def Let_def)

lemma idSet_merge: "idSet (nodes (merge G F)) = idSet (nodes G) \<union> idSet (nodes F)"
  by (auto simp: nodes_merge idSet_def)

lemma links_merge:
  "links (merge G F) =
     filter (\<lambda>l. sourceId l \<in> idSet (nodes G) \<union> idSet (nodes F)
                \<and> targetId l \<in> idSet (nodes G) \<union> idSet (nodes F))
       (links G @ filter (\<lambda>l. linkKey l \<notin> set (map linkKey (links G))) (links F))"
proof -
  have "idSet (nodes G @ filter (\<lambda>n. node_id n \<notin> idSet (nodes G)) (nodes F))
          = idSet (nodes G) \<union> idSet (nodes F)"
    by (auto simp: idSet_def)
  then show ?thesis
    by (simp add: merge_def Let_def)
qed

lemma linkKey_of_pair: "linkPair a = linkPair b \<Longrightarrow> linkKey a = linkKey b"
  by (simp add: linkPair_def linkKey_def)

text \<open>
  C2. Every link of a merged graph has its source and its target identifier among the
  identifiers of the merged graph's nodes, whatever the graph and the fragment are.
\<close>

theorem merge_no_dangling:
  "l \<in> set (links (merge G F)) \<Longrightarrow>
     sourceId l \<in> idSet (nodes (merge G F)) \<and> targetId l \<in> idSet (nodes (merge G F))"
  by (auto simp: idSet_merge links_merge)

theorem merge_no_dangling_witness:
  "mkLink ''B'' ''C'' \<in> set (links (merge sampleG sampleF))
   \<and> sourceId (mkLink ''B'' ''C'') \<in> idSet (nodes (merge sampleG sampleF))
   \<and> targetId (mkLink ''B'' ''C'') \<in> idSet (nodes (merge sampleG sampleF))
   \<and> mkLink ''X'' ''Y'' \<notin> set (links (merge sampleG sampleF))"
proof -
  have ls: "links (merge sampleG sampleF) = [mkLink ''A'' ''B'', mkLink ''B'' ''C'']"
    by code_simp
  have h: "mkLink ''B'' ''C'' \<in> set (links (merge sampleG sampleF))"
    unfolding ls by simp
  have x: "mkLink ''X'' ''Y'' \<notin> set (links (merge sampleG sampleF))"
    unfolding ls by (simp add: mkLink_def)
  from merge_no_dangling [OF h] h x show ?thesis by blast
qed

subsection \<open>Merging the same fragment again\<close>

lemma merge_nodes_again: "nodes (merge (merge G F) F) = nodes (merge G F)"
proof -
  have "filter (\<lambda>n. node_id n \<notin> idSet (nodes (merge G F))) (nodes F) = []"
    unfolding idSet_merge by (auto simp: idSet_def filter_empty_conv)
  then show ?thesis
    by (simp add: nodes_merge [of "merge G F" F])
qed

lemma merge_links_again:
  assumes "noDangling G"
  shows "links (merge (merge G F) F) = links (merge G F)"
proof -
  let ?ok = "\<lambda>l. sourceId l \<in> idSet (nodes G) \<union> idSet (nodes F)
                \<and> targetId l \<in> idSet (nodes G) \<union> idSet (nodes F)"
  let ?M = "merge G F"
  have G_ok: "\<And>g. g \<in> set (links G) \<Longrightarrow> ?ok g"
    using assms by (auto simp: noDangling_def list_all_iff)
  have keep: "filter ?ok (links ?M) = links ?M"
    by (simp add: links_merge [of G F])
  have seen: "linkKey l \<in> set (map linkKey (links ?M))" if "l \<in> set (links F)" "?ok l" for l
  proof (cases "linkKey l \<in> set (map linkKey (links G))")
    case True
    then obtain g where "g \<in> set (links G)" "linkKey g = linkKey l" by auto
    with G_ok [of g] have "g \<in> set (links ?M)"
      by (simp add: links_merge [of G F])
    then have "linkKey g \<in> linkKey ` set (links ?M)" by (rule imageI)
    with \<open>linkKey g = linkKey l\<close> show ?thesis by simp
  next
    case False
    with that have "l \<in> set (links ?M)"
      by (simp add: links_merge [of G F])
    then show ?thesis by simp
  qed
  have none: "filter ?ok (filter (\<lambda>l. linkKey l \<notin> set (map linkKey (links ?M))) (links F)) = []"
    using seen by (auto simp: filter_empty_conv)
  have "links (merge ?M F) =
          filter ?ok (links ?M @ filter (\<lambda>l. linkKey l \<notin> set (map linkKey (links ?M))) (links F))"
    by (simp add: links_merge [of ?M F] idSet_merge Un_assoc)
  also have "\<dots> = links ?M"
    using keep none by simp
  finally show ?thesis .
qed

text \<open>
  C3. Merging a fragment a second time changes nothing. The node list of the second
  merge is that of the first for any graph and fragment; and for a graph whose links all
  resolve to its own nodes (invariant 2 of the specification, which every output of
  sanitize and merge has) the second merge returns the first merge's graph, so the node
  identifier sets and the link identifier-pair sets agree.
\<close>

theorem merge_idempotent:
  "idSet (nodes (merge (merge G F) F)) = idSet (nodes (merge G F))
   \<and> (noDangling G \<longrightarrow>
        set (map linkPair (links (merge (merge G F) F))) = set (map linkPair (links (merge G F)))
        \<and> merge (merge G F) F = merge G F)"
proof -
  have "merge (merge G F) F = merge G F" if "noDangling G"
    using merge_nodes_again [of G F] merge_links_again [OF that, of F]
    by (rule KnowledgeGraphData.equality) simp
  then show ?thesis
    by (auto simp: merge_nodes_again)
qed

theorem merge_idempotent_witness:
  "noDangling sampleG
   \<and> idSet (nodes (merge (merge sampleG sampleF) sampleF)) = idSet (nodes (merge sampleG sampleF))
   \<and> set (map linkPair (links (merge (merge sampleG sampleF) sampleF)))
       = set (map linkPair (links (merge sampleG sampleF)))
   \<and> merge (merge sampleG sampleF) sampleF = merge sampleG sampleF
   \<and> links (merge sampleG sampleF) = [mkLink ''A'' ''B'', mkLink ''B'' ''C'']"
proof -
  have h: "noDangling sampleG" by code_simp
  have ls: "links (merge sampleG sampleF) = [mkLink ''A'' ''B'', mkLink ''B'' ''C'']"
    by code_simp
  from merge_idempotent [of sampleG sampleF] h ls show ?thesis by blast
qed

text \<open>
  The link part does need a graph without dangling links. On \<open>rawG\<close> the first merge
  drops the fragment's link as a duplicate by key and the graph's own link as dangling;
  the second merge then finds no such key and keeps the fragment's link.
\<close>

lemma merge_again_dangling_graph:
  "\<not> noDangling rawG
   \<and> links (merge rawG rawF) = []
   \<and> links (merge (merge rawG rawF) rawF) = [mkLink ''a-b'' ''c'']"
  by code_simp

text \<open>
  C4. Existing wins: when a fragment node's identifier already occurs in the graph, the
  nodes of the merged graph under that identifier are exactly the graph's own, in their
  order and with their data, and the fragment's node is in the merged graph only if the
  graph already held that very node.
\<close>

theorem merge_existing_wins:
  assumes "n \<in> set (nodes F)" and "node_id n \<in> idSet (nodes G)"
  shows "filter (\<lambda>m. node_id m = node_id n) (nodes (merge G F))
           = filter (\<lambda>m. node_id m = node_id n) (nodes G)
       \<and> (n \<in> set (nodes (merge G F)) \<longleftrightarrow> n \<in> set (nodes G))"
proof -
  have "filter (\<lambda>m. node_id m = node_id n) (filter (\<lambda>m. node_id m \<notin> idSet (nodes G)) (nodes F)) = []"
    using assms(2) by (auto simp: filter_empty_conv)
  moreover have "n \<notin> set (filter (\<lambda>m. node_id m \<notin> idSet (nodes G)) (nodes F))"
    using assms(2) by simp
  ultimately show ?thesis
    using assms(2) by (auto simp: nodes_merge)
qed


theorem merge_existing_wins_witness:
  "mkNode ''B'' ''other'' \<in> set (nodes sampleF)
   \<and> node_id (mkNode ''B'' ''other'') \<in> idSet (nodes sampleG)
   \<and> filter (\<lambda>m. node_id m = node_id (mkNode ''B'' ''other'')) (nodes (merge sampleG sampleF))
       = filter (\<lambda>m. node_id m = node_id (mkNode ''B'' ''other'')) (nodes sampleG)
   \<and> (mkNode ''B'' ''other'' \<in> set (nodes (merge sampleG sampleF))
        \<longleftrightarrow> mkNode ''B'' ''other'' \<in> set (nodes sampleG))
   \<and> map label (nodes (merge sampleG sampleF)) = [''a'', ''b'', ''c'']"
proof -
  have h1: "mkNode ''B'' ''other'' \<in> set (nodes sampleF)" by code_simp
  have h2: "node_id (mkNode ''B'' ''other'') \<in> idSet (nodes sampleG)" by code_simp
  have lb: "map label (nodes (merge sampleG sampleF)) = [''a'', ''b'', ''c'']" by code_simp
  from merge_existing_wins [OF h1 h2] h1 h2 lb show ?thesis by blast
qed

text \<open>
  C10. The deduplication key of a link is its source identifier, the character \<open>-\<close>
  and its target identifier, concatenated, and the key alone decides whether merge takes
  a link of the fragment as new: a link that the graph does not hold is in the merged
  graph exactly when it is in the fragment, no link of the graph has its key, and both
  its endpoints are nodes of the merged graph. The links \<open>(a-b, c)\<close> and \<open>(a, b-c)\<close>
  differ as identifier pairs and both have the key \<open>a-b-c\<close>. Merging a fragment that
  holds the second into a graph that holds the first (and all four nodes) drops the
  fragment's link, although no link of the graph has its identifier pair and both its
  endpoints are nodes of the merged graph; the link \<open>(a, c)\<close>, whose key is new, is added
  to the same graph.
\<close>

theorem linkKey_collision:
  "linkKey l = sourceId l @ ''-'' @ targetId l
   \<and> (l \<notin> set (links G) \<longrightarrow>
        (l \<in> set (links (merge G F)) \<longleftrightarrow>
           l \<in> set (links F) \<and> linkKey l \<notin> set (map linkKey (links G))
           \<and> sourceId l \<in> idSet (nodes (merge G F)) \<and> targetId l \<in> idSet (nodes (merge G F))))
   \<and> linkKey (mkLink ''a-b'' ''c'') = ''a-b-c''
   \<and> linkKey (mkLink ''a'' ''b-c'') = ''a-b-c''
   \<and> linkPair (mkLink ''a-b'' ''c'') \<noteq> linkPair (mkLink ''a'' ''b-c'')
   \<and> links collideF = [mkLink ''a'' ''b-c'']
   \<and> linkPair (mkLink ''a'' ''b-c'') \<notin> set (map linkPair (links collideG))
   \<and> sourceId (mkLink ''a'' ''b-c'') \<in> idSet (nodes (merge collideG collideF))
   \<and> targetId (mkLink ''a'' ''b-c'') \<in> idSet (nodes (merge collideG collideF))
   \<and> links (merge collideG collideF) = [mkLink ''a-b'' ''c'']
   \<and> links (merge collideG contrastF) = [mkLink ''a-b'' ''c'', mkLink ''a'' ''c'']"
proof -
  have key: "linkKey l = sourceId l @ ''-'' @ targetId l"
    by (simp add: linkKey_def)
  have mem: "l \<in> set (links (merge G F)) \<longleftrightarrow>
               l \<in> set (links F) \<and> linkKey l \<notin> set (map linkKey (links G))
               \<and> sourceId l \<in> idSet (nodes (merge G F)) \<and> targetId l \<in> idSet (nodes (merge G F))"
    if "l \<notin> set (links G)"
    using that by (auto simp: links_merge idSet_merge)
  have ex: "linkKey (mkLink ''a-b'' ''c'') = ''a-b-c''"
    "linkKey (mkLink ''a'' ''b-c'') = ''a-b-c''"
    "linkPair (mkLink ''a-b'' ''c'') \<noteq> linkPair (mkLink ''a'' ''b-c'')"
    "links collideF = [mkLink ''a'' ''b-c'']"
    "linkPair (mkLink ''a'' ''b-c'') \<notin> set (map linkPair (links collideG))"
    "sourceId (mkLink ''a'' ''b-c'') \<in> idSet (nodes (merge collideG collideF))"
    "targetId (mkLink ''a'' ''b-c'') \<in> idSet (nodes (merge collideG collideF))"
    "links (merge collideG collideF) = [mkLink ''a-b'' ''c'']"
    "links (merge collideG contrastF) = [mkLink ''a-b'' ''c'', mkLink ''a'' ''c'']"
    by code_simp+
  from key mem ex show ?thesis by blast
qed

theorem linkKey_collision_witness:
  "mkLink ''a'' ''b-c'' \<notin> set (links collideG)
   \<and> mkLink ''a'' ''b-c'' \<in> set (links collideF)
   \<and> linkKey (mkLink ''a'' ''b-c'') \<in> set (map linkKey (links collideG))
   \<and> mkLink ''a'' ''b-c'' \<notin> set (links (merge collideG collideF))
   \<and> mkLink ''a'' ''c'' \<notin> set (links collideG)
   \<and> linkKey (mkLink ''a'' ''c'') = ''a-c''
   \<and> linkKey (mkLink ''a'' ''c'') \<notin> set (map linkKey (links collideG))
   \<and> mkLink ''a'' ''c'' \<in> set (links (merge collideG contrastF))"
proof -
  have h1: "mkLink ''a'' ''b-c'' \<notin> set (links collideG)" by code_simp
  have k1: "linkKey (mkLink ''a'' ''b-c'') \<in> set (map linkKey (links collideG))" by code_simp
  have f1: "mkLink ''a'' ''b-c'' \<in> set (links collideF)" by code_simp
  have h2: "mkLink ''a'' ''c'' \<notin> set (links collideG)" by code_simp
  have k2: "linkKey (mkLink ''a'' ''c'') \<notin> set (map linkKey (links collideG))" by code_simp
  have f2: "mkLink ''a'' ''c'' \<in> set (links contrastF)" by code_simp
  have e2: "sourceId (mkLink ''a'' ''c'') \<in> idSet (nodes (merge collideG contrastF))"
    "targetId (mkLink ''a'' ''c'') \<in> idSet (nodes (merge collideG contrastF))"
    by code_simp+
  from linkKey_collision [of "mkLink ''a'' ''b-c''" collideG collideF] h1 k1
  have d1: "mkLink ''a'' ''b-c'' \<notin> set (links (merge collideG collideF))" by blast
  from linkKey_collision [of "mkLink ''a'' ''c''" collideG contrastF] h2 k2 f2 e2
  have d2: "mkLink ''a'' ''c'' \<in> set (links (merge collideG contrastF))"
    and kk: "linkKey (mkLink ''a'' ''c'') = sourceId (mkLink ''a'' ''c'') @ ''-'' @ targetId (mkLink ''a'' ''c'')"
    by blast+
  have "sourceId (mkLink ''a'' ''c'') @ ''-'' @ targetId (mkLink ''a'' ''c'') = ''a-c''"
    by (simp add: sourceId_def targetId_def mkLink_def)
  with kk have k3: "linkKey (mkLink ''a'' ''c'') = ''a-c''" by simp
  from h1 f1 k1 d1 h2 k3 k2 d2 show ?thesis by blast
qed

lemma sanitize_simps:
  "nodes (sanitizeGraphData ns ls) = ns"
  "links (sanitizeGraphData ns ls) = filter (\<lambda>l. sourceId l \<in> idSet ns \<and> targetId l \<in> idSet ns) ls"
  by (simp_all add: sanitizeGraphData_def Let_def)

lemma sanitize_noDangling: "noDangling (sanitizeGraphData ns ls)"
  by (simp add: noDangling_def sanitize_simps list_all_iff)

lemma merge_noDangling: "noDangling (merge G F)"
  by (auto simp: noDangling_def list_all_iff idSet_merge links_merge)

lemma merge_uniqueIds:
  assumes "uniqueIds G" and "distinct (map node_id (nodes F))"
  shows "uniqueIds (merge G F)"
proof -
  have "set (map node_id (nodes G))
          \<inter> set (map node_id (filter (\<lambda>n. node_id n \<notin> idSet (nodes G)) (nodes F))) = {}"
    by (auto simp: idSet_def image_iff)
  with assms show ?thesis
    by (simp add: uniqueIds_def nodes_merge distinct_map_filter)
qed

lemma merge_uniqueLinks:
  assumes "uniqueLinks G" and "distinct (map linkPair (links F))"
  shows "uniqueLinks (merge G F)"
proof -
  let ?new = "filter (\<lambda>l. linkKey l \<notin> set (map linkKey (links G))) (links F)"
  have "linkPair a \<noteq> linkPair b" if "a \<in> set (links G)" "b \<in> set ?new" for a b
  proof
    assume "linkPair a = linkPair b"
    then have "linkKey a = linkKey b" by (rule linkKey_of_pair)
    moreover from that(1) have "linkKey a \<in> linkKey ` set (links G)" by (rule imageI)
    ultimately show False using that(2) by simp
  qed
  then have "set (map linkPair (links G)) \<inter> set (map linkPair ?new) = {}"
    by (simp add: disjoint_iff image_iff) metis
  with assms have "distinct (map linkPair (links G @ ?new))"
    by (simp add: uniqueLinks_def distinct_map_filter)
  then show ?thesis
    unfolding uniqueLinks_def links_merge by (rule distinct_map_filter)
qed

text \<open>
  C1. What sanitize and merge establish. Every output of sanitize, for any raw node and
  link lists, and every output of merging any fragment into a graph that is present, has
  no dangling link (invariant 2). Sanitize returns the node list as it came and removes
  links only, so identifier uniqueness (invariant 1) and link-pair uniqueness
  (invariant 3) hold in its output when they hold in its input. Merge keeps them when the
  graph has them and the fragment's own nodes, respectively links, are pairwise distinct.
\<close>

theorem sanitize_merge_invariants:
  "noDangling (sanitizeGraphData ns ls)
   \<and> noDangling (merge G F)
   \<and> nodes (sanitizeGraphData ns ls) = ns
   \<and> (distinct (map node_id ns) \<longrightarrow> uniqueIds (sanitizeGraphData ns ls))
   \<and> (distinct (map linkPair ls) \<longrightarrow> uniqueLinks (sanitizeGraphData ns ls))
   \<and> (uniqueIds G \<and> distinct (map node_id (nodes F)) \<longrightarrow> uniqueIds (merge G F))
   \<and> (uniqueLinks G \<and> distinct (map linkPair (links F)) \<longrightarrow> uniqueLinks (merge G F))"
  using sanitize_noDangling [of ns ls] merge_noDangling [of G F]
    merge_uniqueIds [of G F] merge_uniqueLinks [of G F]
  by (simp add: uniqueIds_def uniqueLinks_def sanitize_simps distinct_map_filter)

text \<open>
  Sanitize does not deduplicate: a raw input with one identifier on two nodes and one
  link twice comes back with both duplicates.
\<close>

theorem sanitize_duplicates_counterexample:
  "\<not> (uniqueIds (sanitizeGraphData [mkNode ''A'' ''a'', mkNode ''A'' ''again''] [mkLink ''A'' ''A'', mkLink ''A'' ''A''])
      \<and> noDangling (sanitizeGraphData [mkNode ''A'' ''a'', mkNode ''A'' ''again''] [mkLink ''A'' ''A'', mkLink ''A'' ''A''])
      \<and> uniqueLinks (sanitizeGraphData [mkNode ''A'' ''a'', mkNode ''A'' ''again''] [mkLink ''A'' ''A'', mkLink ''A'' ''A'']))"
  by code_simp

theorem sanitize_merge_invariants_witness:
  "distinct (map node_id (nodes sampleF)) \<and> distinct (map linkPair (links sampleF))
   \<and> uniqueIds sampleG \<and> uniqueLinks sampleG
   \<and> noDangling (sanitizeGraphData (nodes sampleF) (links sampleF))
   \<and> uniqueIds (sanitizeGraphData (nodes sampleF) (links sampleF))
   \<and> uniqueLinks (sanitizeGraphData (nodes sampleF) (links sampleF))
   \<and> noDangling (merge sampleG sampleF)
   \<and> uniqueIds (merge sampleG sampleF)
   \<and> uniqueLinks (merge sampleG sampleF)
   \<and> links (sanitizeGraphData (nodes sampleF) (links sampleF)) = [mkLink ''B'' ''C'']"
proof -
  have h: "distinct (map node_id (nodes sampleF))" "distinct (map linkPair (links sampleF))"
    "uniqueIds sampleG" "uniqueLinks sampleG"
    by code_simp+
  have ls: "links (sanitizeGraphData (nodes sampleF) (links sampleF)) = [mkLink ''B'' ''C'']"
    by code_simp
  from sanitize_merge_invariants [of "nodes sampleF" "links sampleF" sampleG sampleF] h ls
  show ?thesis by blast
qed

section \<open>Properties of the handlers\<close>


lemma sample_request:
  "expandRequest sampleState = Some \<lparr>selectedNodes = [(''A'', ''a'')], contextTopic = ''T''\<rparr>"
  by (simp add: expandRequest_def sampleState_def sampleG_def mkNode_def)

lemma run_append: "run (xs @ ys) s = run ys (run xs s)"
  by (simp add: run_def)

lemma run_snoc: "run (es @ [e]) s = step (run es s) e"
  by (simp add: run_def)

lemma messageOr_nonempty: "fallback \<noteq> [] \<Longrightarrow> messageOr err fallback = Some msg \<Longrightarrow> msg \<noteq> []"
  by (cases "(err, fallback)" rule: messageOr.cases) (auto split: if_splits)

lemma messageOr_Thrown: "\<exists>msg. messageOr (Thrown m) fallback = Some msg"
  by (cases m) simp_all

text \<open>
  C6. A failed generation is shown and does not bring the graph back. When the
  collaborator's failure arrives as an error object, as \<^verbatim>\<open>generateKnowledgeGraph\<close>
  always throws one, the error text becomes its message, or
  \<open>Failed to generate graph\<close> when that is absent or empty, hence never empty. Any
  failure clears the loading flag and leaves the graph as it is at that moment, whatever
  ran before. The handler discards the graph when the attempt starts, so the graph is
  \<open>null\<close> after a failed attempt that nothing ran in between.
\<close>

theorem generate_failure:
  "messageOr (Thrown m) ''Failed to generate graph''
     = Some (graphError (run (es @ [GenerateResolve (Inl (Thrown m))]) s))
   \<and> graphError (run (es @ [GenerateResolve (Inl (Thrown m))]) s) \<noteq> []
   \<and> loadingGraph (run (es @ [GenerateResolve (Inl err)]) s) = False
   \<and> graphData (run (es @ [GenerateResolve (Inl err)]) s) = graphData (run es s)
   \<and> (topic s \<noteq> [] \<longrightarrow>
        graphData (run [GenerateBegin] s) = None
        \<and> handleGenerate (Inl err) s = run [GenerateBegin, GenerateResolve (Inl err)] s
        \<and> graphData (handleGenerate (Inl err) s) = None)"
proof -
  obtain msg where msg: "messageOr (Thrown m) ''Failed to generate graph'' = Some msg"
    using messageOr_Thrown by blast
  then have ne: "msg \<noteq> []"
    using messageOr_nonempty [of "''Failed to generate graph''" "Thrown m" msg] by simp
  have a: "graphError (run (es @ [GenerateResolve (Inl (Thrown m))]) s) = msg"
    by (simp add: run_snoc generateResolve_def msg)
  have b: "loadingGraph (run (es @ [GenerateResolve (Inl err)]) s) = False"
    by (simp add: run_snoc generateResolve_def split: option.splits)
  have c: "graphData (run (es @ [GenerateResolve (Inl err)]) s) = graphData (run es s)"
    by (simp add: run_snoc generateResolve_def split: option.splits)
  have d: "graphData (run [GenerateBegin] s) = None
           \<and> handleGenerate (Inl err) s = run [GenerateBegin, GenerateResolve (Inl err)] s
           \<and> graphData (handleGenerate (Inl err) s) = None" if "topic s \<noteq> []"
    using that
    by (simp add: run_def handleGenerate_def generateBegin_def generateResolve_def
        split: option.splits)
  from a msg have a': "messageOr (Thrown m) ''Failed to generate graph''
      = Some (graphError (run (es @ [GenerateResolve (Inl (Thrown m))]) s))"
    by simp
  from a ne have ne': "graphError (run (es @ [GenerateResolve (Inl (Thrown m))]) s) \<noteq> []"
    by simp
  from a' ne' b c d show ?thesis by blast
qed

text \<open>The graph present before a failed generation is gone after it.\<close>

theorem generate_failure_counterexample:
  "graphData sampleState = Some sampleG
   \<and> graphData (handleGenerate (Inl (Thrown (Some ''Failed to generate knowledge graph. Please try again.''))) sampleState)
       \<noteq> graphData sampleState"
  by (simp add: handleGenerate_def generateResolve_def generateBegin_def sampleState_def)

text \<open>
  The error of \<^verbatim>\<open>generateKnowledgeGraph\<close> on the sample state: alone, and with an
  expansion that was pending when the generation began and resolved before it failed.
\<close>

theorem generate_failure_witness:
  "topic sampleState \<noteq> []
   \<and> graphError (handleGenerate (Inl generationError) sampleState)
       = ''Failed to generate knowledge graph. Please try again.''
   \<and> loadingGraph (handleGenerate (Inl generationError) sampleState) = False
   \<and> graphData (handleGenerate (Inl generationError) sampleState) = None
   \<and> graphError (run [ExpandBegin, GenerateBegin, ExpandResolve (Inr staleF),
                      GenerateResolve (Inl generationError)] sampleState)
       = ''Failed to generate knowledge graph. Please try again.''
   \<and> graphData (run [ExpandBegin, GenerateBegin, ExpandResolve (Inr staleF),
                     GenerateResolve (Inl generationError)] sampleState) = Some staleF"
proof -
  let ?m = "Some ''Failed to generate knowledge graph. Please try again.''"
  let ?es = "[ExpandBegin, GenerateBegin, ExpandResolve (Inr staleF)]"
  have e: "generationError = Thrown ?m" by (simp add: generationError_def)
  have h: "topic sampleState \<noteq> []" by (simp add: sampleState_def)
  have g: "graphData (run ?es sampleState) = Some staleF"
    by (simp add: run_def sample_request)
       (simp add: expandBegin_def generateBegin_def expandResolve_def mergeUpdater_def
         sampleState_def)
  from generate_failure [of ?m "[GenerateBegin]" sampleState "Thrown ?m"] h
  have u: "graphError (handleGenerate (Inl (Thrown ?m)) sampleState)
             = ''Failed to generate knowledge graph. Please try again.''"
    "loadingGraph (handleGenerate (Inl (Thrown ?m)) sampleState) = False"
    "graphData (handleGenerate (Inl (Thrown ?m)) sampleState) = None"
    by simp_all
  from generate_failure [of ?m ?es sampleState "Thrown ?m"] g
  have i: "graphError (run (?es @ [GenerateResolve (Inl (Thrown ?m))]) sampleState)
             = ''Failed to generate knowledge graph. Please try again.''"
    "graphData (run (?es @ [GenerateResolve (Inl (Thrown ?m))]) sampleState) = Some staleF"
    by simp_all
  from h u i show ?thesis unfolding e by simp
qed

text \<open>
  A caught \<^verbatim>\<open>null\<close> or \<^verbatim>\<open>undefined\<close> sets no error text: the state differs from the
  one the failure arrived in by the loading flag alone.
\<close>

lemma generate_failure_nullish:
  "generateResolve (Inl Nullish) s = s\<lparr>loadingGraph := False\<rparr>"
  by (simp add: generateResolve_def)

text \<open>
  C8. With an empty selection \<^verbatim>\<open>handleExpandSelection\<close> does nothing: the state,
  the graph in it, is the one it was called in, no request goes to the collaborator
  and nothing is logged.
\<close>

theorem expand_empty_selection:
  assumes "selectedNodeIds s = {}"
  shows "handleExpandSelection expandGraph s = (s, [], [])"
  using assms by (simp add: handleExpandSelection_def expandRequest_def split: option.splits)

theorem expand_empty_selection_witness:
  "selectedNodeIds (sampleState\<lparr>selectedNodeIds := {}\<rparr>) = {}
   \<and> handleExpandSelection (\<lambda>req. Inr staleF) (sampleState\<lparr>selectedNodeIds := {}\<rparr>)
       = (sampleState\<lparr>selectedNodeIds := {}\<rparr>, [], [])"
proof -
  have h: "selectedNodeIds (sampleState\<lparr>selectedNodeIds := {}\<rparr>) = {}" by simp
  from expand_empty_selection [OF h] h show ?thesis by blast
qed




text \<open>
  C5. An expansion that resolves after the graph was replaced is merged all the same.
  When an import or a finished generation has replaced the graph between the start of
  the expansion and its result, the fragment is merged into the replacing graph; when a
  generation has discarded the graph and not yet finished, the fragment itself becomes
  the graph, unsanitized.
\<close>

theorem stale_expansion_merged:
  "graphData (run [ExpandBegin, FileLoaded (Bare ns ls), ExpandResolve (Inr F)] s)
     = Some (merge (sanitizeGraphData ns ls) F)
   \<and> graphData (run [ExpandBegin, FileLoaded (Wrapped ns ls t st), ExpandResolve (Inr F)] s)
     = Some (merge (sanitizeGraphData ns ls) F)
   \<and> graphData (run [ExpandBegin, GenerateBegin, GenerateResolve (Inr D), ExpandResolve (Inr F)] s)
     = Some (merge (sanitizeGraphData (nodes D) (links D)) F)
   \<and> (topic s \<noteq> [] \<longrightarrow>
        graphData (run [ExpandBegin, GenerateBegin, ExpandResolve (Inr F)] s) = Some F)"
  by (simp add: run_def expandResolve_def mergeUpdater_def generateResolve_def generateBegin_def
      expandBegin_def split: option.splits)

text \<open>
  An expansion started on the sample graph, an import of a graph with the single node
  \<open>B\<close>, then the fragment: its node \<open>C\<close> joins the imported graph.
\<close>

theorem stale_expansion_counterexample:
  "graphData (run [ExpandBegin, FileLoaded (Bare [mkNode ''B'' ''b''] []), ExpandResolve (Inr staleF)] sampleState)
     = Some \<lparr>nodes = [mkNode ''B'' ''b'', mkNode ''C'' ''c''], links = []\<rparr>
   \<and> graphData (run [ExpandBegin, FileLoaded (Bare [mkNode ''B'' ''b''] []), ExpandResolve (Inr staleF)] sampleState)
     \<noteq> graphData (run [ExpandBegin, FileLoaded (Bare [mkNode ''B'' ''b''] [])] sampleState)"
proof -
  have m: "merge (sanitizeGraphData [mkNode ''B'' ''b''] []) staleF
             = \<lparr>nodes = [mkNode ''B'' ''b'', mkNode ''C'' ''c''], links = []\<rparr>"
    by code_simp
  have s: "sanitizeGraphData [mkNode ''B'' ''b''] [] = \<lparr>nodes = [mkNode ''B'' ''b''], links = []\<rparr>"
    by code_simp
  show ?thesis
    by (simp add: run_def sample_request expandResolve_def mergeUpdater_def expandBegin_def m)
       (simp add: s)
qed

theorem stale_expansion_merged_witness:
  "topic sampleState \<noteq> []
   \<and> graphData (run [ExpandBegin, GenerateBegin, ExpandResolve (Inr staleF)] sampleState) = Some staleF
   \<and> \<not> noDangling staleF"
proof -
  have h: "topic sampleState \<noteq> []" by (simp add: sampleState_def)
  have d: "\<not> noDangling staleF" by code_simp
  from stale_expansion_merged [of "[]" "[]" staleF sampleState None None emptyF] h d
  show ?thesis by blast
qed

section \<open>Properties of the visualizer effects\<close>


lemma sameRefOrNull_refl: "sameRefOrNull x x"
  by (cases x) (simp_all add: sameRef_def)

text \<open>
  C9. A render at which the data and the dimensions are what they were at the render
  before leaves the simulation as it is, whatever state its physics is in: it is not
  stopped, not rebuilt and not reset. The circles keep the nodes bound to them. When the
  selection is a new set, every circle of a selected node gets the stroke colour
  \<open>(52, 211, 153)\<close>, stroke width 4, stroke opacity 1 and radius 24, and every other
  circle the colour \<open>(55, 65, 81)\<close>, width 1.5, opacity 0.8 and radius 20; when it is
  the same set, the circles stay as they are.
\<close>

theorem selection_change_keeps_simulation:
  assumes "data new = data old" and "dimensions new = dimensions old"
  shows "simulation (rerender forceSimulation old new view) = simulation view
       \<and> map datum (circles (rerender forceSimulation old new view)) = map datum (circles view)
       \<and> (\<not> sameRef (selectedIds old) (selectedIds new) \<longrightarrow>
            map stroke (circles (rerender forceSimulation old new view))
              = map (\<lambda>c. if node_id (datum c) \<in> snd (selectedIds new)
                          then (52, 211, 153) else (55, 65, 81)) (circles view)
            \<and> map strokeWidth (circles (rerender forceSimulation old new view))
              = map (\<lambda>c. if node_id (datum c) \<in> snd (selectedIds new) then 4 else 3 / 2)
                  (circles view)
            \<and> map strokeOpacity (circles (rerender forceSimulation old new view))
              = map (\<lambda>c. Some (if node_id (datum c) \<in> snd (selectedIds new) then 1 else 4 / 5))
                  (circles view)
            \<and> map radius (circles (rerender forceSimulation old new view))
              = map (\<lambda>c. if node_id (datum c) \<in> snd (selectedIds new) then 24 else 20)
                  (circles view))
       \<and> (sameRef (selectedIds old) (selectedIds new) \<longrightarrow>
            circles (rerender forceSimulation old new view) = circles view)"
  using assms
  by (simp add: rerender_def Let_def sameRefOrNull_refl sameRef_def highlightEffect_def
      highlight_def comp_def)

lemma sampleRendered_eq:
  "sampleRendered =
     \<lparr>circles = [newCircle (mkNode ''A'' ''a''), newCircle (mkNode ''B'' ''b'')],
      simulation = Some \<lparr>simNodes = nodes sampleG, simLinks = links sampleG, center = (512, 384),
                         physics = 7, stopped = False\<rparr>\<rparr>"
  by (simp add: sampleRendered_def mount_def rerender_def highlightEffect_def renderEffect_def
      renderCleanup_def initialDimensions_def sampleInputs_def sampleG_def sameRef_def Let_def)

theorem selection_change_keeps_simulation_witness:
  "data selectedInputs = data sampleInputs
   \<and> dimensions selectedInputs = dimensions sampleInputs
   \<and> \<not> sameRef (selectedIds sampleInputs) (selectedIds selectedInputs)
   \<and> simulation (rerender (\<lambda>ns ls c. 0) sampleInputs selectedInputs sampleRendered)
       = Some \<lparr>simNodes = nodes sampleG, simLinks = links sampleG, center = (512, 384),
               physics = 7, stopped = False\<rparr>
   \<and> map (node_id \<circ> datum) (circles (rerender (\<lambda>ns ls c. 0) sampleInputs selectedInputs sampleRendered))
       = [''A'', ''B'']
   \<and> map stroke (circles (rerender (\<lambda>ns ls c. 0) sampleInputs selectedInputs sampleRendered))
       = [(52, 211, 153), (55, 65, 81)]
   \<and> map strokeWidth (circles (rerender (\<lambda>ns ls c. 0) sampleInputs selectedInputs sampleRendered))
       = [4, 3 / 2]
   \<and> map strokeOpacity (circles (rerender (\<lambda>ns ls c. 0) sampleInputs selectedInputs sampleRendered))
       = [Some 1, Some (4 / 5)]
   \<and> map radius (circles (rerender (\<lambda>ns ls c. 0) sampleInputs selectedInputs sampleRendered))
       = [24, 20]
   \<and> map strokeOpacity (circles sampleRendered) = [None, None]
   \<and> map radius (circles sampleRendered) = [20, 20]"
proof -
  let ?R = "rerender (\<lambda>ns ls c. 0) sampleInputs selectedInputs sampleRendered"
  have h1: "data selectedInputs = data sampleInputs" by (simp add: selectedInputs_def)
  have h2: "dimensions selectedInputs = dimensions sampleInputs" by (simp add: selectedInputs_def)
  have h3: "\<not> sameRef (selectedIds sampleInputs) (selectedIds selectedInputs)"
    by (simp add: sameRef_def sampleInputs_def selectedInputs_def)
  have sel: "snd (selectedIds selectedInputs) = {''A''}" by (simp add: selectedInputs_def)
  have before: "map strokeOpacity (circles sampleRendered) = [None, None]"
    "map radius (circles sampleRendered) = [20, 20]"
    by (simp_all add: sampleRendered_eq newCircle_def)
  from selection_change_keeps_simulation [OF h1 h2, of "\<lambda>ns ls c. 0" sampleRendered] h3
  have sim: "simulation ?R = simulation sampleRendered"
    and dat: "map datum (circles ?R) = map datum (circles sampleRendered)"
    and col: "map stroke (circles ?R)
          = map (\<lambda>c. if node_id (datum c) \<in> {''A''} then (52, 211, 153) else (55, 65, 81))
              (circles sampleRendered)"
    and wid: "map strokeWidth (circles ?R)
          = map (\<lambda>c. if node_id (datum c) \<in> {''A''} then 4 else 3 / 2) (circles sampleRendered)"
    and opa: "map strokeOpacity (circles ?R)
          = map (\<lambda>c. Some (if node_id (datum c) \<in> {''A''} then 1 else 4 / 5)) (circles sampleRendered)"
    and rad: "map radius (circles ?R)
          = map (\<lambda>c. if node_id (datum c) \<in> {''A''} then 24 else 20) (circles sampleRendered)"
    unfolding sel by blast+
  have c1: "simulation ?R = Some \<lparr>simNodes = nodes sampleG, simLinks = links sampleG,
              center = (512, 384), physics = 7, stopped = False\<rparr>"
    unfolding sim by (simp add: sampleRendered_eq)
  have "map (node_id \<circ> datum) (circles ?R) = map node_id (map datum (circles ?R))"
    by simp
  also have "\<dots> = [''A'', ''B'']"
    unfolding dat by (simp add: sampleRendered_eq newCircle_def mkNode_def)
  finally have c2: "map (node_id \<circ> datum) (circles ?R) = [''A'', ''B'']" .
  have c3: "map stroke (circles ?R) = [(52, 211, 153), (55, 65, 81)]"
    unfolding col by (simp add: sampleRendered_eq newCircle_def mkNode_def)
  have c4: "map strokeWidth (circles ?R) = [4, 3 / 2]"
    unfolding wid by (simp add: sampleRendered_eq newCircle_def mkNode_def)
  have c5: "map strokeOpacity (circles ?R) = [Some 1, Some (4 / 5)]"
    unfolding opa by (simp add: sampleRendered_eq newCircle_def mkNode_def)
  have c6: "map radius (circles ?R) = [24, 20]"
    unfolding rad by (simp add: sampleRendered_eq newCircle_def mkNode_def)
  from h1 h2 h3 c1 c2 c3 c4 c5 c6 before show ?thesis by blast
qed

end
